theory Spec2Isabelle
  imports Main "HOL-Library.Word" "HOL-Library.Code_Target_Numeral"
begin

unbundle bit_operations_syntax

section \<open>Byte strings\<close>

text \<open>
  Go's \<^verbatim>\<open>[]byte\<close> and \<^verbatim>\<open>string\<close> are sequences of bytes: \<^typ>\<open>string\<close>, a list of
  8-bit characters. The helpers below are the functions of the packages \<^verbatim>\<open>bytes\<close> and
  \<^verbatim>\<open>strings\<close> that \<^verbatim>\<open>main\<close> calls, always with a separator of one byte.
\<close>

abbreviation NL :: char where "NL \<equiv> CHR 0x0A"
abbreviation TAB :: char where "TAB \<equiv> CHR 0x09"

text \<open>\<^verbatim>\<open>bytes.HasPrefix(s, prefix)\<close>: \<^verbatim>\<open>len(s) >= len(prefix) && Equal(s[:len(prefix)], prefix)\<close>.\<close>

definition HasPrefix :: "string \<Rightarrow> string \<Rightarrow> bool" where
  "HasPrefix s p \<longleftrightarrow> length p \<le> length s \<and> take (length p) s = p"

text \<open>\<^verbatim>\<open>bytes.Index(s, []byte{c})\<close> and \<^verbatim>\<open>strings.Index(s, "c")\<close>: the index of the first
  \<open>c\<close> in \<open>s\<close>, or -1.\<close>

fun Index :: "string \<Rightarrow> char \<Rightarrow> int" where
  "Index [] c = - 1"
| "Index (x # xs) c =
     (if x = c then 0 else (let i = Index xs c in if i < 0 then - 1 else i + 1))"

text \<open>The failures of the program: \<^verbatim>\<open>log.Fatal\<close> and \<^verbatim>\<open>log.Fatalf\<close> print to the error
  stream and exit with status 1; an out-of-range slice expression is a run-time panic.\<close>

datatype failure =
    ReadFileError
  | SlicePanic
  | ExecError
  | UnrecognizedFormat string
  | UnexpectedFormat string
  | CannotParseDuration string

text \<open>The slice expressions \<^verbatim>\<open>v[n:]\<close> and \<^verbatim>\<open>v[:i]\<close>, with their bounds checks.\<close>

definition slice_from :: "string \<Rightarrow> int \<Rightarrow> failure + string" where
  "slice_from v n = (if 0 \<le> n \<and> n \<le> int (length v) then Inr (drop (nat n) v) else Inl SlicePanic)"

definition slice_to :: "string \<Rightarrow> int \<Rightarrow> failure + string" where
  "slice_to v i = (if 0 \<le> i \<and> i \<le> int (length v) then Inr (take (nat i) v) else Inl SlicePanic)"

text \<open>\<^verbatim>\<open>bytes.Split(s, []byte{c})\<close>: the pieces of \<open>s\<close> between the occurrences of \<open>c\<close>;
  the loop of \<^verbatim>\<open>genSplit\<close> cuts at \<^verbatim>\<open>Index(s, sep)\<close> until there is none.\<close>

lemma Index_bounds: "- 1 \<le> Index s c \<and> Index s c < int (length s)"
  by (induction s) (auto simp: Let_def)

function Split :: "string \<Rightarrow> char \<Rightarrow> string list" where
  "Split s c =
     (let m = Index s c in
      if m < 0 then [s] else take (nat m) s # Split (drop (nat m + 1) s) c)"
  by pat_completeness auto
termination
proof (relation "measure (\<lambda>(s, c). length s)")
  show "wf (measure (\<lambda>(s, c). length s))" by simp
next
  fix s :: string and c :: char and x :: int
  assume "x = Index s c" and "\<not> x < 0"
  moreover have "Index s c < int (length s)" using Index_bounds [of s c] by simp
  ultimately have "0 < length s" by (cases s) auto
  then show "((drop (nat x + 1) s, c), (s, c)) \<in> measure (\<lambda>(s, c). length s)" by simp
qed

declare Split.simps [simp del]

section \<open>The scanner\<close>

text \<open>
  The first loop of \<^verbatim>\<open>main\<close> (the same text in both versions of the program):
  \<^verbatim>\<open>
  var bench [][]byte
  for _, v := range testFiles {
      b, err := ioutil.ReadFile(v)
      if err != nil { log.Fatal(err) }
      a := bytes.Split(b, []byte{'\n'})
      for _, v := range a {
          if !bytes.HasPrefix(v, []byte("func Benchmark")) { continue }
          v = v[len("func "):]
          v = v[:bytes.Index(v, []byte{'('})]
          bench = append(bench, v)
      }
  }
  \<close>
  The file system is a function from a path to the bytes read, \<open>None\<close> when the read
  fails. \<open>bench\<close> is threaded through both loops.
\<close>

text \<open>The body of the inner loop on one line that has the prefix.\<close>

definition scan_line :: "string \<Rightarrow> failure + string" where
  "scan_line v =
     (case slice_from v (int (length ''func '')) of
        Inl e \<Rightarrow> Inl e
      | Inr v1 \<Rightarrow> slice_to v1 (Index v1 CHR ''(''))"

fun scan_lines :: "string list \<Rightarrow> string list \<Rightarrow> failure + string list" where
  "scan_lines [] bench = Inr bench"
| "scan_lines (v # a) bench =
     (if \<not> HasPrefix v ''func Benchmark'' then scan_lines a bench
      else case scan_line v of
             Inl e \<Rightarrow> Inl e
           | Inr v2 \<Rightarrow> scan_lines a (bench @ [v2]))"

fun scan_files :: "(string \<Rightarrow> string option) \<Rightarrow> string list \<Rightarrow> string list \<Rightarrow> failure + string list" where
  "scan_files ReadFile [] bench = Inr bench"
| "scan_files ReadFile (v # testFiles) bench =
     (case ReadFile v of
        None \<Rightarrow> Inl ReadFileError
      | Some b \<Rightarrow>
          (case scan_lines (Split b NL) bench of
             Inl e \<Rightarrow> Inl e
           | Inr bench' \<Rightarrow> scan_files ReadFile testFiles bench'))"

definition Scanner :: "(string \<Rightarrow> string option) \<Rightarrow> string list \<Rightarrow> failure + string list" where
  "Scanner ReadFile testFiles = scan_files ReadFile testFiles []"

section \<open>Formatting\<close>

text \<open>
  The verbs of \<^verbatim>\<open>fmt.Printf\<close> that \<^verbatim>\<open>main\<close> uses on integers and strings. A width pads with
  spaces up to that many runes (\<^verbatim>\<open>utf8.RuneCount\<close>, a parameter of the model); decimal
  digits are ASCII, one byte a rune.
\<close>

definition digit_char :: "nat \<Rightarrow> char" where
  "digit_char n = char_of (of_char CHR ''0'' + n)"

fun decimal :: "nat \<Rightarrow> string" where
  "decimal n = (if n < 10 then [digit_char n] else decimal (n div 10) @ [digit_char (n mod 10)])"

declare decimal.simps [simp del]

definition fmt_pad :: "(string \<Rightarrow> nat) \<Rightarrow> bool \<Rightarrow> nat \<Rightarrow> string \<Rightarrow> string" where
  "fmt_pad RuneCount left wid s =
     (let n = RuneCount s in
      if wid \<le> n then s
      else if left then s @ replicate (wid - n) CHR '' ''
      else replicate (wid - n) CHR '' '' @ s)"

text \<open>\<^verbatim>\<open>%*s\<close>: the width is an argument; a negative one sets the minus flag (pad on the
  right), one beyond 10^6 in size is refused with a marker.\<close>

definition Sprintf_star_s :: "(string \<Rightarrow> nat) \<Rightarrow> int \<Rightarrow> string \<Rightarrow> string" where
  "Sprintf_star_s RuneCount w s =
     (if 1000000 < \<bar>w\<bar> then ''%!(BADWIDTH)'' @ s
      else fmt_pad RuneCount (w < 0) (nat \<bar>w\<bar>) s)"

definition Sprintf_15s :: "(string \<Rightarrow> nat) \<Rightarrow> string \<Rightarrow> string" where
  "Sprintf_15s RuneCount s = fmt_pad RuneCount False 15 s"

text \<open>\<^verbatim>\<open>%15d\<close> of an \<^verbatim>\<open>int\<close> and \<^verbatim>\<open>%15v\<close> of a \<^verbatim>\<open>uint64\<close>.\<close>

definition Sprintf_15d :: "int \<Rightarrow> string" where
  "Sprintf_15d n =
     fmt_pad length False 15 (if n < 0 then CHR ''-'' # decimal (nat (- n)) else decimal (nat n))"

definition Sprintf_15v :: "64 word \<Rightarrow> string" where
  "Sprintf_15v u = fmt_pad length False 15 (decimal (unat u))"

section \<open>Durations\<close>

text \<open>
  \<^verbatim>\<open>time.Duration\<close> is an \<^verbatim>\<open>int64\<close> count of nanoseconds; \<^verbatim>\<open>t += d\<close> wraps around.
  \<^verbatim>\<open>%v\<close> prints it with \<^verbatim>\<open>Duration.String\<close> of the standard library (Go 1.7 and later,
  where the zero duration is \<^verbatim>\<open>0s\<close>), which fills a buffer from its end: \<^verbatim>\<open>fmtFrac\<close>
  writes the fraction without trailing zeros, \<^verbatim>\<open>fmtInt\<close> the integer before it. The
  buffer written so far is the string \<open>buf\<close>; after the sign is taken off, the
  magnitude is an unsigned number that only gets divided.
\<close>

type_synonym Duration = "64 word"

abbreviation (input) Microsecond :: nat where "Microsecond \<equiv> 1000"
abbreviation (input) Millisecond :: nat where "Millisecond \<equiv> 1000000"
abbreviation (input) Second :: nat where "Second \<equiv> 1000000000"

fun fmtFrac_loop :: "nat \<Rightarrow> string \<Rightarrow> bool \<Rightarrow> nat \<Rightarrow> string \<times> bool \<times> nat" where
  "fmtFrac_loop 0 buf print v = (buf, print, v)"
| "fmtFrac_loop (Suc i) buf print v =
     (let digit = v mod 10;
          print' = (print \<or> digit \<noteq> 0);
          buf' = (if print' then digit_char digit # buf else buf)
      in fmtFrac_loop i buf' print' (v div 10))"

definition fmtFrac :: "string \<Rightarrow> nat \<Rightarrow> nat \<Rightarrow> string \<times> nat" where
  "fmtFrac buf v prec =
     (case fmtFrac_loop prec buf False v of
        (buf', print, v') \<Rightarrow> (if print then CHR ''.'' # buf' else buf', v'))"

fun fmtInt_loop :: "string \<Rightarrow> nat \<Rightarrow> string" where
  "fmtInt_loop buf v = (if v = 0 then buf else fmtInt_loop (digit_char (v mod 10) # buf) (v div 10))"

declare fmtInt_loop.simps [simp del]

definition fmtInt :: "string \<Rightarrow> nat \<Rightarrow> string" where
  "fmtInt buf v = (if v = 0 then CHR ''0'' # buf else fmtInt_loop buf v)"

definition Duration_String :: "Duration \<Rightarrow> string" where
  "Duration_String d =
     (let neg = (d <s 0);
          u = unat (if neg then - d else d)
      in if u < Second then
           (if u = 0 then ''0s''
            else
              let (unit, prec) =
                    (if u < Microsecond then (''ns'', 0)
                     else if u < Millisecond then ([CHR 0xC2, CHR 0xB5, CHR ''s''], 3)
                     else (''ms'', 6));
                  (buf, u') = fmtFrac unit u prec;
                  buf = fmtInt buf u'
              in if neg then CHR ''-'' # buf else buf)
         else
           let (buf, u) = fmtFrac ''s'' u 9;
               buf = fmtInt buf (u mod 60);
               u = u div 60;
               buf = (if 0 < u then
                        let buf = fmtInt (CHR ''m'' # buf) (u mod 60);
                            u = u div 60
                        in if 0 < u then fmtInt (CHR ''h'' # buf) u else buf
                      else buf)
           in if neg then CHR ''-'' # buf else buf)"

section \<open>The program and its surroundings\<close>

text \<open>
  One measurement, as \<^verbatim>\<open>parse.ParseLine\<close> of \<^verbatim>\<open>golang.org/x/tools/benchmark/parse\<close>
  returns it. The two \<^verbatim>\<open>float64\<close> fields have the type parameter \<open>'f\<close>: the program
  hands them to \<^verbatim>\<open>fmt\<close> and does nothing else with them.
\<close>

record 'f Benchmark =
  Name :: string
  N :: int
  NsPerOp :: 'f
  AllocedBytesPerOp :: "64 word"
  AllocsPerOp :: "64 word"
  MBPerS :: 'f
  Measured :: int
  Ord :: int

text \<open>The flags of \<open>Measured\<close>: \<^verbatim>\<open>NsPerOp = 1 << iota\<close>, \<^verbatim>\<open>MBPerS\<close>,
  \<^verbatim>\<open>AllocedBytesPerOp\<close>, \<^verbatim>\<open>AllocsPerOp\<close>.\<close>

abbreviation (input) parse_NsPerOp :: int where "parse_NsPerOp \<equiv> 1"
abbreviation (input) parse_MBPerS :: int where "parse_MBPerS \<equiv> 2"
abbreviation (input) parse_AllocedBytesPerOp :: int where "parse_AllocedBytesPerOp \<equiv> 4"
abbreviation (input) parse_AllocsPerOp :: int where "parse_AllocsPerOp \<equiv> 8"

text \<open>
  What \<^verbatim>\<open>main\<close> reads from outside, after the flags are parsed and the import path and
  the test files of the package are found: the flag, the import path, the file system,
  the \<^verbatim>\<open>go\<close> tool (the combined output and whether \<^verbatim>\<open>err != nil\<close>, for the arguments
  of the invocation and the number of invocations made before it), and the library
  functions that are not modelled here: \<^verbatim>\<open>time.ParseDuration\<close>, \<^verbatim>\<open>parse.ParseLine\<close>,
  \<^verbatim>\<open>fmt.Sprintf\<close> with the verbs \<^verbatim>\<open>%.2f\<close> and \<^verbatim>\<open>%15.2f\<close>, and \<^verbatim>\<open>utf8.RuneCount\<close>.
\<close>

record 'f env =
  oBenchmem :: bool
  importPath :: string
  testFiles :: "string list"
  ioutil_ReadFile :: "string \<Rightarrow> string option"
  exec_CombinedOutput :: "nat \<Rightarrow> string list \<Rightarrow> string \<times> bool"
  time_ParseDuration :: "string \<Rightarrow> Duration option"
  parse_ParseLine :: "string \<Rightarrow> 'f Benchmark option"
  fmt_Sprintf_2f :: "'f \<Rightarrow> string"
  fmt_Sprintf_15_2f :: "'f \<Rightarrow> string"
  utf8_RuneCount :: "string \<Rightarrow> nat"

text \<open>What the program has done so far: the bytes printed on the standard output, the
  commands run, and the variable \<open>t\<close>.\<close>

record state =
  stdout :: string
  execs :: "string list list"
  t_sum :: Duration

definition init :: state where
  "init = \<lparr>stdout = [], execs = [], t_sum = 0\<rparr>"

text \<open>\<^verbatim>\<open>cmd := exec.Command("go", args...); out, err := cmd.CombinedOutput()\<close>\<close>

definition run_go :: "'f env \<Rightarrow> string list \<Rightarrow> state \<Rightarrow> (string \<times> bool) \<times> state" where
  "run_go env args s =
     (exec_CombinedOutput env (length (execs s)) (''go'' # args),
      s\<lparr>execs := execs s @ [''go'' # args]\<rparr>)"

text \<open>
  The checks of the output, the same text in both versions:
  \<^verbatim>\<open>
  a := bytes.Split(out, []byte{'\n'})
  if len(a) < 3 { log.Fatalf("Unrecognized format of go test output:\n%s", out) }
  p := fmt.Sprintf("ok  \t%s\t", importPath)
  if !bytes.HasPrefix(a[0], v) || !bytes.Equal(a[1], []byte("PASS")) ||
      !bytes.HasPrefix(a[2], []byte(p)) {
      log.Fatalf("Unexpected format of go test output:\n%s", out)
  }
  d, err := time.ParseDuration(string(a[2][len(p):]))
  if err != nil { log.Fatalf("Cannot parse benchmark duration\n%s", out) }
  \<close>
  The result is the first line and the duration.
\<close>

definition trailer_prefix :: "'f env \<Rightarrow> string" where
  "trailer_prefix env = ''ok  '' @ [TAB] @ importPath env @ [TAB]"

definition check_output :: "'f env \<Rightarrow> string \<Rightarrow> string \<Rightarrow> failure + string \<times> Duration" where
  "check_output env v out =
     (let a = Split out NL in
      if length a < 3 then Inl (UnrecognizedFormat out)
      else
        let p = trailer_prefix env in
        if \<not> HasPrefix (a ! 0) v \<or> a ! 1 \<noteq> ''PASS'' \<or> \<not> HasPrefix (a ! 2) p
        then Inl (UnexpectedFormat out)
        else
          case slice_from (a ! 2) (int (length p)) of
            Inl e \<Rightarrow> Inl e
          | Inr ds \<Rightarrow>
              (case time_ParseDuration env ds of
                 None \<Rightarrow> Inl (CannotParseDuration out)
               | Some d \<Rightarrow> Inr (a ! 0, d)))"

text \<open>The loop over \<open>bench\<close>: a failure in the body ends the program.\<close>

fun for_bench :: "(string \<Rightarrow> state \<Rightarrow> failure option \<times> state) \<Rightarrow> string list \<Rightarrow> state
    \<Rightarrow> failure option \<times> state" where
  "for_bench body [] s = (None, s)"
| "for_bench body (v # bench) s =
     (case body v s of
        (Some e, s') \<Rightarrow> (Some e, s')
      | (None, s') \<Rightarrow> for_bench body bench s')"

text \<open>The two lines after the loop:
  \<^verbatim>\<open>fmt.Printf("PASS\n"); fmt.Printf("ok  \t%s\t%v\n", importPath, t)\<close>\<close>

definition summary :: "'f env \<Rightarrow> Duration \<Rightarrow> string" where
  "summary env t = ''PASS'' @ [NL] @ ''ok  '' @ [TAB] @ importPath env @ [TAB] @ Duration_String t @ [NL]"

subsection \<open>The version of \<^verbatim>\<open>main.go\<close>\<close>

text \<open>
  \<^verbatim>\<open>
  args := []string{"test", "-run", "NONE", "-bench", fmt.Sprintf("^%s$", v)}
  if *oBenchmem { args = append(args, "-benchmem") }
  ...
  t += d
  fmt.Printf("%s\n", a[0])
  \<close>
\<close>

definition args_B :: "'f env \<Rightarrow> string \<Rightarrow> string list" where
  "args_B env v =
     (let args = [''test'', ''-run'', ''NONE'', ''-bench'', ''^'' @ v @ ''$'']
      in if oBenchmem env then args @ [''-benchmem''] else args)"

definition body_B :: "'f env \<Rightarrow> string \<Rightarrow> state \<Rightarrow> failure option \<times> state" where
  "body_B env v s =
     (case run_go env (args_B env v) s of
        ((out, err), s) \<Rightarrow>
          if err then (Some ExecError, s)
          else
            (case check_output env v out of
               Inl e \<Rightarrow> (Some e, s)
             | Inr (a0, d) \<Rightarrow>
                 (None, s\<lparr>t_sum := t_sum s + d, stdout := stdout s @ a0 @ [NL]\<rparr>)))"

definition main_B :: "'f env \<Rightarrow> failure option \<times> state" where
  "main_B env =
     (case Scanner (ioutil_ReadFile env) (testFiles env) of
        Inl e \<Rightarrow> (Some e, init)
      | Inr bench \<Rightarrow>
          (case for_bench (body_B env) bench init of
             (Some e, s) \<Rightarrow> (Some e, s)
           | (None, s) \<Rightarrow> (None, s\<lparr>stdout := stdout s @ summary env (t_sum s)\<rparr>)))"

subsection \<open>The version with the formatted report\<close>

text \<open>
  The later version of \<^verbatim>\<open>main\<close> passes the import path to the tool, parses the result
  line and prints its fields in columns:
  \<^verbatim>\<open>
  width := 0
  for _, v := range bench { width = mathutil.Max(width, len(v)) }
  ...
  args := []string{"test", "-run", "NONE", "-bench", fmt.Sprintf("^%s$", v), importPath}
  if *oBenchmem { args = append(args, "-benchmem") }
  ...
  t += d
  b, err := parse.ParseLine(string(a[0]))
  if err != nil { fmt.Printf("%s\n", a[0]); continue }
  fmt.Printf("%*s%15d", -(width + 4), b.Name, b.N)
  if b.Measured&parse.NsPerOp != 0 {
      s := fmt.Sprintf("%.2f", b.NsPerOp)
      if strings.Index(s, ".") > 2 { s = s[:len(s)-3] }
      fmt.Printf("%15s ns/op", s)
  }
  if b.Measured&parse.MBPerS != 0 { fmt.Printf("%15.2f MB/s", b.MBPerS) }
  if b.Measured&parse.AllocedBytesPerOp != 0 { fmt.Printf("%15v B/op", b.AllocedBytesPerOp) }
  if b.Measured&parse.AllocsPerOp != 0 { fmt.Printf("%15v allocs/op", b.AllocsPerOp) }
  fmt.Println()
  \<close>
\<close>

definition max_width :: "string list \<Rightarrow> nat" where
  "max_width bench = foldl (\<lambda>width v. max width (length v)) 0 bench"

definition args_A :: "'f env \<Rightarrow> string \<Rightarrow> string list" where
  "args_A env v =
     (let args = [''test'', ''-run'', ''NONE'', ''-bench'', ''^'' @ v @ ''$'', importPath env]
      in if oBenchmem env then args @ [''-benchmem''] else args)"

text \<open>The string printed for ns/op, from the rendering \<open>s\<close> of \<^verbatim>\<open>%.2f\<close>.\<close>

definition ns_string :: "string \<Rightarrow> failure + string" where
  "ns_string s = (if 2 < Index s CHR ''.'' then slice_to s (int (length s) - 3) else Inr s)"

text \<open>The printing of one record appends to the output \<open>out\<close>.\<close>

definition print_NsPerOp :: "'f env \<Rightarrow> 'f \<Rightarrow> string \<Rightarrow> failure + string" where
  "print_NsPerOp env x out =
     (case ns_string (fmt_Sprintf_2f env x) of
        Inl e \<Rightarrow> Inl e
      | Inr s \<Rightarrow> Inr (out @ Sprintf_15s (utf8_RuneCount env) s @ '' ns/op''))"

definition print_fields :: "'f env \<Rightarrow> nat \<Rightarrow> 'f Benchmark \<Rightarrow> string \<Rightarrow> failure option \<times> string" where
  "print_fields env width b out =
     (let out = out @ Sprintf_star_s (utf8_RuneCount env) (- (int width + 4)) (Name b)
                    @ Sprintf_15d (N b)
      in case (if Measured b AND parse_NsPerOp \<noteq> 0
               then print_NsPerOp env (NsPerOp b) out else Inr out) of
           Inl e \<Rightarrow> (Some e, out)
         | Inr out \<Rightarrow>
             let out = (if Measured b AND parse_MBPerS \<noteq> 0
                        then out @ fmt_Sprintf_15_2f env (MBPerS b) @ '' MB/s'' else out);
                 out = (if Measured b AND parse_AllocedBytesPerOp \<noteq> 0
                        then out @ Sprintf_15v (AllocedBytesPerOp b) @ '' B/op'' else out);
                 out = (if Measured b AND parse_AllocsPerOp \<noteq> 0
                        then out @ Sprintf_15v (AllocsPerOp b) @ '' allocs/op'' else out)
             in (None, out @ [NL]))"

definition body_A :: "'f env \<Rightarrow> nat \<Rightarrow> string \<Rightarrow> state \<Rightarrow> failure option \<times> state" where
  "body_A env width v s =
     (case run_go env (args_A env v) s of
        ((out, err), s) \<Rightarrow>
          if err then (Some ExecError, s)
          else
            (case check_output env v out of
               Inl e \<Rightarrow> (Some e, s)
             | Inr (a0, d) \<Rightarrow>
                 let s = s\<lparr>t_sum := t_sum s + d\<rparr> in
                 (case parse_ParseLine env a0 of
                    None \<Rightarrow> (None, s\<lparr>stdout := stdout s @ a0 @ [NL]\<rparr>)
                  | Some b \<Rightarrow>
                      (case print_fields env width b (stdout s) of
                         (r, out) \<Rightarrow> (r, s\<lparr>stdout := out\<rparr>)))))"

definition main_A :: "'f env \<Rightarrow> failure option \<times> state" where
  "main_A env =
     (case Scanner (ioutil_ReadFile env) (testFiles env) of
        Inl e \<Rightarrow> (Some e, init)
      | Inr bench \<Rightarrow>
          (case for_bench (body_A env (max_width bench)) bench init of
             (Some e, s) \<Rightarrow> (Some e, s)
           | (None, s) \<Rightarrow> (None, s\<lparr>stdout := stdout s @ summary env (t_sum s)\<rparr>)))"

section \<open>The scanner: what it is expected to return\<close>

text \<open>
  The declaration convention in words: a line is a benchmark declaration when it begins
  with \<^verbatim>\<open>func Benchmark\<close>; its identifier is the text after \<^verbatim>\<open>func \<close> up to the first
  \<^verbatim>\<open>(\<close>. The identifiers of a set of files are those of the files in order, each file
  line by line.
\<close>

definition is_benchmark_line :: "string \<Rightarrow> bool" where
  "is_benchmark_line l \<longleftrightarrow> HasPrefix l ''func Benchmark''"

definition identifier_of :: "string \<Rightarrow> string" where
  "identifier_of l = takeWhile (\<lambda>c. c \<noteq> CHR ''('') (drop 5 l)"

definition file_identifiers :: "string \<Rightarrow> string list" where
  "file_identifiers b = map identifier_of (filter is_benchmark_line (Split b NL))"

definition source_identifiers :: "(string \<Rightarrow> string option) \<Rightarrow> string list \<Rightarrow> string list" where
  "source_identifiers ReadFile files =
     concat (map (\<lambda>f. case ReadFile f of None \<Rightarrow> [] | Some b \<Rightarrow> file_identifiers b) files)"

text \<open>A file is scannable when it can be read and each of its benchmark declaration
  lines has a \<^verbatim>\<open>(\<close>.\<close>

definition scannable :: "(string \<Rightarrow> string option) \<Rightarrow> string \<Rightarrow> bool" where
  "scannable ReadFile f =
     (case ReadFile f of
        None \<Rightarrow> False
      | Some b \<Rightarrow> list_all (\<lambda>l. is_benchmark_line l \<longrightarrow> CHR ''('' \<in> set l) (Split b NL))"

definition readable :: "(string \<Rightarrow> string option) \<Rightarrow> string \<Rightarrow> bool" where
  "readable ReadFile f \<longleftrightarrow> ReadFile f \<noteq> None"

section \<open>A package to run the program on\<close>

text \<open>Three test files: two with benchmarks, \<^verbatim>\<open>BenchmarkFoo\<close> declared in both, and one
  with a declaration line inside a comment.\<close>

definition a_test_go :: string where
  "a_test_go = ''package x'' @ [NL] @ ''func BenchmarkFoo(b *testing.B) {'' @ [NL] @ ''}'' @ [NL]
     @ ''func BenchmarkBar(b *testing.B) {}'' @ [NL]"

definition b_test_go :: string where
  "b_test_go = ''func TestFoo(t *testing.T) {}'' @ [NL] @ ''func BenchmarkFoo(b *testing.B) {}''"

definition c_test_go :: string where
  "c_test_go = ''/*'' @ [NL] @ ''func BenchmarkOld'' @ [NL] @ ''*/'' @ [NL]
     @ ''func BenchmarkNew(b *testing.B) {}'' @ [NL]"

definition demo_ReadFile :: "string \<Rightarrow> string option" where
  "demo_ReadFile f =
     (if f = ''a_test.go'' then Some a_test_go
      else if f = ''b_test.go'' then Some b_test_go
      else if f = ''c_test.go'' then Some c_test_go
      else None)"

section \<open>The run: what it is expected to do\<close>

text \<open>
  The duration that the trailer line of an output carries: the third line after the
  prefix \<^verbatim>\<open>ok  \t<importPath>\t\<close>, parsed. The durations of a run are those of the outputs
  of its invocations, the \<open>n\<close>-th invocation being the one of the \<open>n\<close>-th identifier.
\<close>

definition output_line :: "string \<Rightarrow> nat \<Rightarrow> string" where
  "output_line out i = (let a = Split out NL in if i < length a then a ! i else [])"

definition trailer_duration :: "'f env \<Rightarrow> string \<Rightarrow> Duration" where
  "trailer_duration env out =
     (case time_ParseDuration env (drop (length (trailer_prefix env)) (output_line out 2)) of
        Some d \<Rightarrow> d
      | None \<Rightarrow> 0)"

fun durations :: "'f env \<Rightarrow> ('f env \<Rightarrow> string \<Rightarrow> string list) \<Rightarrow> nat \<Rightarrow> string list \<Rightarrow> Duration list" where
  "durations env args n [] = []"
| "durations env args n (v # bench) =
     trailer_duration env (fst (exec_CombinedOutput env n (''go'' # args env v)))
       # durations env args (Suc n) bench"

text \<open>
  The results of an invocation that are fatal, in the words of the error handling
  design: a non-zero exit, fewer than three lines, a first line that does not start with
  the identifier, a second line other than \<^verbatim>\<open>PASS\<close>, a third line that does not start with
  the trailer prefix, a duration that does not parse.
\<close>

definition fatal_result :: "'f env \<Rightarrow> string \<Rightarrow> string \<times> bool \<Rightarrow> bool" where
  "fatal_result env v r \<longleftrightarrow>
     snd r
     \<or> length (Split (fst r) NL) < 3
     \<or> \<not> HasPrefix (output_line (fst r) 0) v
     \<or> output_line (fst r) 1 \<noteq> ''PASS''
     \<or> \<not> HasPrefix (output_line (fst r) 2) (trailer_prefix env)
     \<or> time_ParseDuration env (drop (length (trailer_prefix env)) (output_line (fst r) 2)) = None"

text \<open>The number of decimal digits before the point of a rendered number.\<close>

definition integer_digits :: "string \<Rightarrow> nat" where
  "integer_digits s =
     length (filter (\<lambda>c. c \<in> set ''0123456789'') (takeWhile (\<lambda>c. c \<noteq> CHR ''.'') s))"

text \<open>
  The tool answers by the pattern it is given: a result line with a measurement for
  \<^verbatim>\<open>BenchmarkFoo\<close>, a line that is no measurement for \<^verbatim>\<open>BenchmarkBar\<close>, a non-zero exit
  otherwise. The library functions are tables and simple renderings that agree with the
  library on the strings of this run; a \<^verbatim>\<open>float64\<close> is its number of hundredths.
\<close>

definition foo_line :: string where
  "foo_line = ''BenchmarkFoo-4   '' @ [TAB] @ ''    2000'' @ [TAB] @ ''   1068291 ns/op''"

definition foo_out :: string where
  "foo_out = foo_line @ [NL] @ ''PASS'' @ [NL] @ ''ok  '' @ [TAB] @ ''x'' @ [TAB] @ ''2.250s'' @ [NL]"

definition bar_line :: string where
  "bar_line = ''BenchmarkBar-4   '' @ [TAB] @ ''--- log output''"

definition bar_out :: string where
  "bar_out = bar_line @ [NL] @ ''PASS'' @ [NL] @ ''ok  '' @ [TAB] @ ''x'' @ [TAB] @ ''1.021s'' @ [NL]"

definition demo_go :: "nat \<Rightarrow> string list \<Rightarrow> string \<times> bool" where
  "demo_go n args =
     (if take 6 args = [''go'', ''test'', ''-run'', ''NONE'', ''-bench'', ''^BenchmarkFoo$'']
      then (foo_out, False)
      else if take 6 args = [''go'', ''test'', ''-run'', ''NONE'', ''-bench'', ''^BenchmarkBar$'']
      then (bar_out, False)
      else (''no such benchmark'' @ [NL], True))"

definition demo_ParseDuration :: "string \<Rightarrow> Duration option" where
  "demo_ParseDuration s =
     (if s = ''2.250s'' then Some 2250000000
      else if s = ''1.021s'' then Some 1021000000
      else None)"

definition foo_benchmark :: "int Benchmark" where
  "foo_benchmark =
     \<lparr>Name = ''BenchmarkFoo-4'', N = 2000, NsPerOp = 106829100, AllocedBytesPerOp = 0,
      AllocsPerOp = 0, MBPerS = 0, Measured = 1, Ord = 0\<rparr>"

definition demo_ParseLine :: "string \<Rightarrow> int Benchmark option" where
  "demo_ParseLine line = (if line = foo_line then Some foo_benchmark else None)"

definition demo_Sprintf_2f :: "int \<Rightarrow> string" where
  "demo_Sprintf_2f h =
     (if h < 0 then [CHR ''-''] else []) @ decimal (nat \<bar>h\<bar> div 100) @ [CHR ''.'']
       @ [digit_char (nat \<bar>h\<bar> div 10 mod 10), digit_char (nat \<bar>h\<bar> mod 10)]"

definition demo_Sprintf_15_2f :: "int \<Rightarrow> string" where
  "demo_Sprintf_15_2f h = fmt_pad length False 15 (demo_Sprintf_2f h)"

definition demo_env :: "int env" where
  "demo_env =
     \<lparr>oBenchmem = False, importPath = ''x'', testFiles = [''a_test.go'', ''b_test.go''],
      ioutil_ReadFile = demo_ReadFile, exec_CombinedOutput = demo_go,
      time_ParseDuration = demo_ParseDuration, parse_ParseLine = demo_ParseLine,
      fmt_Sprintf_2f = demo_Sprintf_2f, fmt_Sprintf_15_2f = demo_Sprintf_15_2f,
      utf8_RuneCount = length\<rparr>"

definition demo_bench :: "string list" where
  "demo_bench = [''BenchmarkFoo'', ''BenchmarkBar'', ''BenchmarkFoo'']"

text \<open>The same package when the tool is broken: every invocation exits with an error.\<close>

definition failing_go :: "nat \<Rightarrow> string list \<Rightarrow> string \<times> bool" where
  "failing_go n args = (''exit status 2'' @ [NL], True)"

definition failing_env :: "int env" where
  "failing_env = demo_env\<lparr>exec_CombinedOutput := failing_go\<rparr>"

text \<open>The same package when the tool fails at its second invocation.\<close>

definition second_fails_go :: "nat \<Rightarrow> string list \<Rightarrow> string \<times> bool" where
  "second_fails_go n args = (if n = 1 then (''exit status 2'' @ [NL], True) else demo_go n args)"

definition second_fails_env :: "int env" where
  "second_fails_env = demo_env\<lparr>exec_CombinedOutput := second_fails_go\<rparr>"

text \<open>The state of the run after the first identifier, and after the second.\<close>

definition foo_cmd :: "string list" where
  "foo_cmd = [''go'', ''test'', ''-run'', ''NONE'', ''-bench'', ''^BenchmarkFoo$'', ''x'']"

definition bar_cmd :: "string list" where
  "bar_cmd = [''go'', ''test'', ''-run'', ''NONE'', ''-bench'', ''^BenchmarkBar$'', ''x'']"

definition foo_report :: string where
  "foo_report = ''BenchmarkFoo-4             2000        1068291 ns/op'' @ [NL]"

definition after_foo :: state where
  "after_foo = \<lparr>stdout = foo_report, execs = [foo_cmd], t_sum = 2250000000\<rparr>"

definition after_bar :: state where
  "after_bar = \<lparr>stdout = foo_report @ bar_line @ [NL], execs = [foo_cmd, bar_cmd],
                t_sum = 3271000000\<rparr>"

text \<open>The same package with no test file, and a measurement without tags.\<close>

definition no_files_env :: "int env" where
  "no_files_env = demo_env\<lparr>testFiles := []\<rparr>"

definition untagged_benchmark :: "int Benchmark" where
  "untagged_benchmark = foo_benchmark\<lparr>Measured := 0\<rparr>"

text \<open>
  The number of identifiers at the head of \<open>bench\<close> whose invocations have a result that
  is not fatal, the first invocation being the \<open>n\<close>-th of the run: the identifiers that
  the run completes.
\<close>

fun completed :: "'f env \<Rightarrow> ('f env \<Rightarrow> string \<Rightarrow> string list) \<Rightarrow> nat \<Rightarrow> string list \<Rightarrow> nat" where
  "completed env args n [] = 0"
| "completed env args n (v # bench) =
     (if fatal_result env v (exec_CombinedOutput env n (''go'' # args env v)) then 0
      else Suc (completed env args (Suc n) bench))"

text \<open>A package whose two benchmarks each report the longest duration there is, 2^63 - 1
  nanoseconds.\<close>

definition long_trailer :: string where
  "long_trailer = ''ok  '' @ [TAB] @ ''x'' @ [TAB] @ ''2562047h47m16.854775807s''"

definition long_go :: "nat \<Rightarrow> string list \<Rightarrow> string \<times> bool" where
  "long_go n args =
     (if take 6 args = [''go'', ''test'', ''-run'', ''NONE'', ''-bench'', ''^BenchmarkFoo$'']
      then (foo_line @ [NL] @ ''PASS'' @ [NL] @ long_trailer @ [NL], False)
      else if take 6 args = [''go'', ''test'', ''-run'', ''NONE'', ''-bench'', ''^BenchmarkBar$'']
      then (bar_line @ [NL] @ ''PASS'' @ [NL] @ long_trailer @ [NL], False)
      else (''no such benchmark'' @ [NL], True))"

definition long_ParseDuration :: "string \<Rightarrow> Duration option" where
  "long_ParseDuration s =
     (if s = ''2562047h47m16.854775807s'' then Some 9223372036854775807 else None)"

definition long_env :: "int env" where
  "long_env = demo_env\<lparr>testFiles := [''a_test.go''], exec_CombinedOutput := long_go,
                        time_ParseDuration := long_ParseDuration\<rparr>"

section \<open>Properties of the scanner\<close>

lemma Index_in: "c \<in> set s \<Longrightarrow> Index s c = int (length (takeWhile (\<lambda>x. x \<noteq> c) s))"
  by (induction s) (auto simp: Let_def)

lemma Index_notin: "c \<notin> set s \<Longrightarrow> Index s c = - 1"
  by (induction s) (auto simp: Let_def)

lemma slice_to_Index:
  "slice_to s (Index s c) = (if c \<in> set s then Inr (takeWhile (\<lambda>x. x \<noteq> c) s) else Inl SlicePanic)"
proof (cases "c \<in> set s")
  case True
  have "length (takeWhile (\<lambda>x. x \<noteq> c) s) \<le> length s" by (rule length_takeWhile_le)
  with True show ?thesis
    by (simp add: slice_to_def Index_in takeWhile_eq_take [symmetric])
next
  case False
  then show ?thesis by (simp add: slice_to_def Index_notin)
qed

lemma benchmark_line_split:
  assumes "is_benchmark_line l"
  shows "5 \<le> length l" and "take 5 l = ''func ''"
    and "CHR ''('' \<in> set l \<longleftrightarrow> CHR ''('' \<in> set (drop 5 l)"
proof -
  from assms have len: "14 \<le> length l" and tk: "take 14 l = ''func Benchmark''"
    by (simp_all add: is_benchmark_line_def HasPrefix_def eval_nat_numeral)
  show "5 \<le> length l" using len by simp
  have "take 5 l = take 5 (take 14 l)" by simp
  then show t5: "take 5 l = ''func ''" by (simp only: tk) simp
  have "set l = set (take 5 l) \<union> set (drop 5 l)"
    by (metis append_take_drop_id set_append)
  then show "CHR ''('' \<in> set l \<longleftrightarrow> CHR ''('' \<in> set (drop 5 l)"
    by (simp add: t5)
qed

lemma scan_line_eq:
  assumes "is_benchmark_line l"
  shows "scan_line l = (if CHR ''('' \<in> set l then Inr (identifier_of l) else Inl SlicePanic)"
  using benchmark_line_split [OF assms]
  by (simp add: scan_line_def slice_from_def slice_to_Index identifier_of_def)

lemma scan_lines_ok:
  assumes "\<forall>l \<in> set a. is_benchmark_line l \<longrightarrow> CHR ''('' \<in> set l"
  shows "scan_lines a bench = Inr (bench @ map identifier_of (filter is_benchmark_line a))"
  using assms
proof (induction a arbitrary: bench)
  case Nil
  then show ?case by simp
next
  case (Cons l a)
  show ?case
  proof (cases "is_benchmark_line l")
    case True
    with Cons.prems have "scan_line l = Inr (identifier_of l)" by (simp add: scan_line_eq)
    with True Cons show ?thesis by (simp add: is_benchmark_line_def)
  next
    case False
    with Cons show ?thesis by (simp add: is_benchmark_line_def)
  qed
qed

lemma scan_lines_panic:
  assumes "\<exists>l \<in> set a. is_benchmark_line l \<and> CHR ''('' \<notin> set l"
  shows "scan_lines a bench = Inl SlicePanic"
  using assms
proof (induction a arbitrary: bench)
  case Nil
  then show ?case by simp
next
  case (Cons l a)
  show ?case
  proof (cases "is_benchmark_line l")
    case True
    show ?thesis
    proof (cases "CHR ''('' \<in> set l")
      case paren: True
      with True Cons.prems have "\<exists>l \<in> set a. is_benchmark_line l \<and> CHR ''('' \<notin> set l" by auto
      with True paren Cons.IH show ?thesis
        by (simp add: scan_line_eq is_benchmark_line_def [symmetric])
    next
      case False
      with True show ?thesis by (simp add: scan_line_eq is_benchmark_line_def [symmetric])
    qed
  next
    case False
    with Cons.prems have "\<exists>l \<in> set a. is_benchmark_line l \<and> CHR ''('' \<notin> set l" by auto
    with False Cons.IH show ?thesis by (simp add: is_benchmark_line_def)
  qed
qed

lemma scan_files_ok:
  assumes "list_all (scannable ReadFile) fs"
  shows "scan_files ReadFile fs bench = Inr (bench @ source_identifiers ReadFile fs)"
  using assms
proof (induction fs arbitrary: bench)
  case Nil
  then show ?case by (simp add: source_identifiers_def)
next
  case (Cons f fs)
  from Cons.prems obtain b where b: "ReadFile f = Some b"
    and lines: "\<forall>l \<in> set (Split b NL). is_benchmark_line l \<longrightarrow> CHR ''('' \<in> set l"
    by (auto simp: scannable_def list_all_iff split: option.splits)
  from Cons.prems have rest: "list_all (scannable ReadFile) fs" by simp
  show ?case
    by (simp add: b scan_lines_ok [OF lines] Cons.IH [OF rest] source_identifiers_def
        file_identifiers_def)
qed

lemma scan_files_panic:
  assumes "list_all (readable ReadFile) fs" and "\<not> list_all (scannable ReadFile) fs"
  shows "scan_files ReadFile fs bench = Inl SlicePanic"
  using assms
proof (induction fs arbitrary: bench)
  case Nil
  then show ?case by simp
next
  case (Cons f fs)
  from Cons.prems(1) obtain b where b: "ReadFile f = Some b"
    by (auto simp: readable_def)
  show ?case
  proof (cases "scannable ReadFile f")
    case True
    with b have lines: "\<forall>l \<in> set (Split b NL). is_benchmark_line l \<longrightarrow> CHR ''('' \<in> set l"
      by (simp add: scannable_def list_all_iff)
    from True Cons.prems have "list_all (readable ReadFile) fs" "\<not> list_all (scannable ReadFile) fs"
      by simp_all
    then show ?thesis by (simp add: b scan_lines_ok [OF lines] Cons.IH)
  next
    case False
    with b have "\<exists>l \<in> set (Split b NL). is_benchmark_line l \<and> CHR ''('' \<notin> set l"
      by (simp add: scannable_def list_all_iff)
    then show ?thesis by (simp add: b scan_lines_panic)
  qed
qed

text \<open>
  C3 (as amended). For every list of test files that can be read and in which every line
  beginning with \<^verbatim>\<open>func Benchmark\<close> contains a \<^verbatim>\<open>(\<close>, the scanner returns exactly the
  identifiers of the benchmark declaration lines (the text after \<^verbatim>\<open>func \<close> up to the
  first \<^verbatim>\<open>(\<close>), one for each such line, file after file and line after line, a name
  declared twice being returned twice.
\<close>

theorem Scanner_identifiers:
  assumes "list_all (scannable ReadFile) files"
  shows "Scanner ReadFile files = Inr (source_identifiers ReadFile files)
    \<and> length (source_identifiers ReadFile files)
        = (\<Sum>f\<leftarrow>files. length (filter is_benchmark_line (Split (the (ReadFile f)) NL)))"
proof -
  have "length (source_identifiers ReadFile fs)
        = (\<Sum>f\<leftarrow>fs. length (filter is_benchmark_line (Split (the (ReadFile f)) NL)))"
    if "list_all (scannable ReadFile) fs" for fs
    using that
    by (induction fs)
      (auto simp: source_identifiers_def file_identifiers_def scannable_def split: option.splits)
  with assms scan_files_ok [OF assms, of "[]"] show ?thesis by (simp add: Scanner_def)
qed

theorem Scanner_identifiers_witness:
  "list_all (scannable demo_ReadFile) [''a_test.go'', ''b_test.go'']
   \<and> Scanner demo_ReadFile [''a_test.go'', ''b_test.go'']
       = Inr [''BenchmarkFoo'', ''BenchmarkBar'', ''BenchmarkFoo'']"
proof -
  have h: "list_all (scannable demo_ReadFile) [''a_test.go'', ''b_test.go'']" by code_simp
  have v: "source_identifiers demo_ReadFile [''a_test.go'', ''b_test.go'']
       = [''BenchmarkFoo'', ''BenchmarkBar'', ''BenchmarkFoo'']" by code_simp
  show ?thesis using h Scanner_identifiers [OF h] by (simp only: v)
qed

text \<open>
  C3 as stated fails: the third file can be read and has two lines that begin with
  \<^verbatim>\<open>func Benchmark\<close>, one of them in a comment and without a \<^verbatim>\<open>(\<close>; the scanner returns no
  identifier at all, it panics.
\<close>

theorem Scanner_counterexample:
  "demo_ReadFile ''c_test.go'' = Some c_test_go
   \<and> filter is_benchmark_line (Split c_test_go NL)
       = [''func BenchmarkOld'', ''func BenchmarkNew(b *testing.B) {}'']
   \<and> Scanner demo_ReadFile [''c_test.go''] = Inl SlicePanic"
  by code_simp

text \<open>
  C9. On a line that begins with \<^verbatim>\<open>func Benchmark\<close> and has no \<^verbatim>\<open>(\<close>, the index lookup in
  the rest of the line after \<^verbatim>\<open>func \<close> returns -1 and the slice expression panics. For
  files that can all be read, the scanner panics exactly when some file has such a line;
  the panic is none of the fatal errors.
\<close>

theorem Scanner_panics_without_paren:
  assumes "list_all (readable ReadFile) files"
  shows "(\<forall>l. HasPrefix l ''func Benchmark'' \<and> CHR ''('' \<notin> set l \<longrightarrow>
            Index (drop 5 l) CHR ''('' = - 1 \<and> scan_line l = Inl SlicePanic)
    \<and> (Scanner ReadFile files = Inl SlicePanic \<longleftrightarrow> \<not> list_all (scannable ReadFile) files)
    \<and> SlicePanic \<noteq> ReadFileError"
proof -
  have line: "Index (drop 5 l) CHR ''('' = - 1 \<and> scan_line l = Inl SlicePanic"
    if "HasPrefix l ''func Benchmark''" and "CHR ''('' \<notin> set l" for l
  proof -
    from that(1) have b: "is_benchmark_line l" by (simp add: is_benchmark_line_def)
    from that(2) benchmark_line_split(3) [OF b] have "CHR ''('' \<notin> set (drop 5 l)" by simp
    then have "Index (drop 5 l) CHR ''('' = - 1" by (rule Index_notin)
    moreover from b that(2) have "scan_line l = Inl SlicePanic" by (simp add: scan_line_eq)
    ultimately show ?thesis by simp
  qed
  have "Scanner ReadFile files = Inl SlicePanic \<longleftrightarrow> \<not> list_all (scannable ReadFile) files"
  proof (cases "list_all (scannable ReadFile) files")
    case True
    then show ?thesis using scan_files_ok [OF True, of "[]"] by (simp add: Scanner_def)
  next
    case False
    then show ?thesis using scan_files_panic [OF assms False, of "[]"] by (simp add: Scanner_def)
  qed
  with line show ?thesis by blast
qed

theorem Scanner_panics_without_paren_witness:
  "list_all (readable demo_ReadFile) [''a_test.go'', ''c_test.go'']
   \<and> \<not> list_all (scannable demo_ReadFile) [''a_test.go'', ''c_test.go'']
   \<and> Scanner demo_ReadFile [''a_test.go'', ''c_test.go''] = Inl SlicePanic"
proof -
  have h: "list_all (readable demo_ReadFile) [''a_test.go'', ''c_test.go'']" by code_simp
  have n: "\<not> list_all (scannable demo_ReadFile) [''a_test.go'', ''c_test.go'']" by code_simp
  show ?thesis using h n Scanner_panics_without_paren [OF h] by blast
qed

section \<open>Properties of the run\<close>

lemma output_line_nth: "i < length (Split out NL) \<Longrightarrow> output_line out i = Split out NL ! i"
  by (simp add: output_line_def)

lemma check_output_eq:
  "check_output env v out =
     (if length (Split out NL) < 3 then Inl (UnrecognizedFormat out)
      else if \<not> HasPrefix (output_line out 0) v \<or> output_line out 1 \<noteq> ''PASS''
              \<or> \<not> HasPrefix (output_line out 2) (trailer_prefix env)
      then Inl (UnexpectedFormat out)
      else case time_ParseDuration env (drop (length (trailer_prefix env)) (output_line out 2)) of
             None \<Rightarrow> Inl (CannotParseDuration out)
           | Some d \<Rightarrow> Inr (output_line out 0, d))"
proof (cases "length (Split out NL) < 3")
  case True
  then show ?thesis by (simp add: check_output_def)
next
  case False
  then have l: "output_line out 0 = Split out NL ! 0" "output_line out (Suc 0) = Split out NL ! Suc 0"
    "output_line out 2 = Split out NL ! 2"
    by (auto simp: output_line_def Let_def)
  from False show ?thesis
    by (simp add: check_output_def Let_def l slice_from_def HasPrefix_def split: option.splits)
qed

lemma check_output_fatal:
  assumes "fatal_result env v (out, False)"
  shows "\<exists>e. check_output env v out = Inl e"
  using assms by (auto simp: check_output_eq fatal_result_def)

lemma check_output_ok:
  assumes "\<not> fatal_result env v (out, False)"
  shows "check_output env v out = Inr (output_line out 0, trailer_duration env out)"
  using assms
  by (auto simp: check_output_eq fatal_result_def trailer_duration_def split: option.splits)

lemma ns_string_total:
  "ns_string s = Inr (if 2 < Index s CHR ''.'' then take (length s - 3) s else s)"
proof -
  have "Index s CHR ''.'' < int (length s)" using Index_bounds [of s "CHR ''.''"] by simp
  then show ?thesis by (auto simp: ns_string_def slice_to_def nat_diff_distrib')
qed

lemma print_fields_ok: "fst (print_fields env width b out) = None"
  by (simp add: print_fields_def print_NsPerOp_def ns_string_total Let_def)

lemma body_A_fatal:
  assumes "fatal_result env v (exec_CombinedOutput env (length (execs s)) (''go'' # args_A env v))"
  shows "\<exists>e. body_A env w v s = (Some e, s\<lparr>execs := execs s @ [''go'' # args_A env v]\<rparr>)"
proof -
  obtain out err where r: "exec_CombinedOutput env (length (execs s)) (''go'' # args_A env v) = (out, err)"
    by (cases "exec_CombinedOutput env (length (execs s)) (''go'' # args_A env v)")
  show ?thesis
  proof (cases err)
    case True
    with r show ?thesis by (simp add: body_A_def run_go_def)
  next
    case False
    with assms r obtain e where "check_output env v out = Inl e"
      using check_output_fatal by fastforce
    with r False show ?thesis by (simp add: body_A_def run_go_def)
  qed
qed

lemma body_A_ok:
  assumes "\<not> fatal_result env v (exec_CombinedOutput env (length (execs s)) (''go'' # args_A env v))"
  shows "body_A env w v s =
     (None, s\<lparr>execs := execs s @ [''go'' # args_A env v],
              t_sum := t_sum s + trailer_duration env
                 (fst (exec_CombinedOutput env (length (execs s)) (''go'' # args_A env v))),
              stdout :=
                (let a0 = output_line (fst (exec_CombinedOutput env (length (execs s))
                                             (''go'' # args_A env v))) 0
                 in case parse_ParseLine env a0 of
                      None \<Rightarrow> stdout s @ a0 @ [NL]
                    | Some b \<Rightarrow> snd (print_fields env w b (stdout s)))\<rparr>)"
proof -
  obtain out err where r: "exec_CombinedOutput env (length (execs s)) (''go'' # args_A env v) = (out, err)"
    by (cases "exec_CombinedOutput env (length (execs s)) (''go'' # args_A env v)")
  from assms r have err: "\<not> err" by (auto simp: fatal_result_def)
  with assms r have c: "check_output env v out = Inr (output_line out 0, trailer_duration env out)"
    using check_output_ok by fastforce
  show ?thesis
  proof (cases "parse_ParseLine env (output_line out 0)")
    case None
    with r err c show ?thesis by (simp add: body_A_def run_go_def)
  next
    case (Some b)
    obtain r' out' where p: "print_fields env w b (stdout s) = (r', out')"
      by (cases "print_fields env w b (stdout s)")
    with print_fields_ok [of env w b "stdout s"] have "r' = None" by simp
    with r err c Some p show ?thesis by (simp add: body_A_def run_go_def)
  qed
qed

lemma body_B_fatal:
  assumes "fatal_result env v (exec_CombinedOutput env (length (execs s)) (''go'' # args_B env v))"
  shows "\<exists>e. body_B env v s = (Some e, s\<lparr>execs := execs s @ [''go'' # args_B env v]\<rparr>)"
proof -
  obtain out err where r: "exec_CombinedOutput env (length (execs s)) (''go'' # args_B env v) = (out, err)"
    by (cases "exec_CombinedOutput env (length (execs s)) (''go'' # args_B env v)")
  show ?thesis
  proof (cases err)
    case True
    with r show ?thesis by (simp add: body_B_def run_go_def)
  next
    case False
    with assms r obtain e where "check_output env v out = Inl e"
      using check_output_fatal by fastforce
    with r False show ?thesis by (simp add: body_B_def run_go_def)
  qed
qed

lemma body_B_ok:
  assumes "\<not> fatal_result env v (exec_CombinedOutput env (length (execs s)) (''go'' # args_B env v))"
  shows "body_B env v s =
     (None, s\<lparr>execs := execs s @ [''go'' # args_B env v],
              t_sum := t_sum s + trailer_duration env
                 (fst (exec_CombinedOutput env (length (execs s)) (''go'' # args_B env v))),
              stdout := stdout s @ output_line (fst (exec_CombinedOutput env (length (execs s))
                                             (''go'' # args_B env v))) 0 @ [NL]\<rparr>)"
proof -
  obtain out err where r: "exec_CombinedOutput env (length (execs s)) (''go'' # args_B env v) = (out, err)"
    by (cases "exec_CombinedOutput env (length (execs s)) (''go'' # args_B env v)")
  from assms r have err: "\<not> err" by (auto simp: fatal_result_def)
  with assms r have c: "check_output env v out = Inr (output_line out 0, trailer_duration env out)"
    using check_output_ok by fastforce
  with r err show ?thesis by (simp add: body_B_def run_go_def)
qed

lemma for_bench_append:
  "for_bench body (xs @ ys) s =
     (case for_bench body xs s of
        (Some e, s') \<Rightarrow> (Some e, s')
      | (None, s') \<Rightarrow> for_bench body ys s')"
  by (induction xs arbitrary: s) (auto split: prod.splits option.splits)

lemma sint_sum_list:
  "sint (sum_list (ds :: 64 word list)) = signed_take_bit 63 (sum_list (map sint ds))"
proof (induction ds)
  case Nil
  then show ?case by simp
next
  case (Cons d ds)
  have sd: "signed_take_bit 63 (sint d) = sint d"
    using sint_ge [of d] sint_lt [of d] by (intro signed_take_bit_int_eq_self) simp_all
  have "sint (d + sum_list ds) = signed_take_bit 63 (sint d + sint (sum_list ds))"
    by (simp add: sint_word_ariths)
  also have "\<dots> = signed_take_bit 63 (signed_take_bit 63 (sint d) + signed_take_bit 63 (sum_list (map sint ds)))"
    by (simp only: Cons.IH sd)
  also have "\<dots> = signed_take_bit 63 (sint d + sum_list (map sint ds))"
    by (rule signed_take_bit_add)
  finally show ?case by simp
qed

lemma sint_sum_list_exact:
  assumes "- (2 ^ 63) \<le> sum_list (map sint ds)" and "sum_list (map sint ds) < 2 ^ 63"
  shows "sint (sum_list (ds :: 64 word list)) = sum_list (map sint ds)"
  using assms by (simp add: sint_sum_list signed_take_bit_int_eq_self)

lemma length_durations: "length (durations env args n bench) = length bench"
  by (induction bench arbitrary: n) simp_all

lemma main_A_completed:
  assumes "Scanner (ioutil_ReadFile env) (testFiles env) = Inr bench"
    and "main_A env = (None, s)"
  obtains s0 where "for_bench (body_A env (max_width bench)) bench init = (None, s0)"
    and "s = s0\<lparr>stdout := stdout s0 @ summary env (t_sum s0)\<rparr>"
  using assms by (auto simp: main_A_def split: prod.splits option.splits)

lemma main_B_completed:
  assumes "Scanner (ioutil_ReadFile env) (testFiles env) = Inr bench"
    and "main_B env = (None, s)"
  obtains s0 where "for_bench (body_B env) bench init = (None, s0)"
    and "s = s0\<lparr>stdout := stdout s0 @ summary env (t_sum s0)\<rparr>"
  using assms by (auto simp: main_B_def split: prod.splits option.splits)

lemma for_bench_run:
  assumes fatal: "\<And>v s. fatal_result env v (exec_CombinedOutput env (length (execs s)) (''go'' # args env v))
      \<Longrightarrow> \<exists>e. body v s = (Some e, s\<lparr>execs := execs s @ [''go'' # args env v]\<rparr>)"
    and ok: "\<And>v s. \<not> fatal_result env v (exec_CombinedOutput env (length (execs s)) (''go'' # args env v))
      \<Longrightarrow> \<exists>s'. body v s = (None, s') \<and> execs s' = execs s @ [''go'' # args env v]
            \<and> t_sum s' = t_sum s + trailer_duration env
                 (fst (exec_CombinedOutput env (length (execs s)) (''go'' # args env v)))"
    and run: "for_bench body bench s = (r, s')"
  shows "execs s' = execs s @ map (\<lambda>v. ''go'' # args env v)
                               (take (Suc (completed env args (length (execs s)) bench)) bench)
       \<and> t_sum s' = t_sum s + sum_list (durations env args (length (execs s))
                                         (take (completed env args (length (execs s)) bench) bench))
       \<and> (r = None \<longleftrightarrow> completed env args (length (execs s)) bench = length bench)"
  using run
proof (induction bench arbitrary: s)
  case Nil
  then show ?case by simp
next
  case (Cons v bench)
  define n where "n = length (execs s)"
  show ?case
  proof (cases "fatal_result env v (exec_CombinedOutput env n (''go'' # args env v))")
    case True
    with fatal [of v s] obtain e where
      b: "body v s = (Some e, s\<lparr>execs := execs s @ [''go'' # args env v]\<rparr>)"
      by (auto simp: n_def)
    with Cons.prems have "r = Some e" "s' = s\<lparr>execs := execs s @ [''go'' # args env v]\<rparr>"
      by simp_all
    with True show ?thesis by (simp add: n_def [symmetric])
  next
    case False
    with ok [of v s] obtain s1 where b: "body v s = (None, s1)"
      and e1: "execs s1 = execs s @ [''go'' # args env v]"
      and t1: "t_sum s1 = t_sum s + trailer_duration env
                 (fst (exec_CombinedOutput env n (''go'' # args env v)))"
      by (auto simp: n_def)
    from b Cons.prems have rest: "for_bench body bench s1 = (r, s')" by simp
    from e1 have l1: "length (execs s1) = Suc n" by (simp add: n_def)
    from Cons.IH [OF rest] False show ?thesis
      by (simp add: l1 e1 t1 n_def [symmetric] add.assoc)
  qed
qed

lemma for_bench_A_run:
  assumes "for_bench (body_A env w) bench s = (r, s')"
  shows "execs s' = execs s @ map (\<lambda>v. ''go'' # args_A env v)
                               (take (Suc (completed env args_A (length (execs s)) bench)) bench)
       \<and> t_sum s' = t_sum s + sum_list (durations env args_A (length (execs s))
                                         (take (completed env args_A (length (execs s)) bench) bench))
       \<and> (r = None \<longleftrightarrow> completed env args_A (length (execs s)) bench = length bench)"
proof (rule for_bench_run [OF _ _ assms])
  fix v and s :: state
  assume "fatal_result env v (exec_CombinedOutput env (length (execs s)) (''go'' # args_A env v))"
  then show "\<exists>e. body_A env w v s = (Some e, s\<lparr>execs := execs s @ [''go'' # args_A env v]\<rparr>)"
    by (rule body_A_fatal)
next
  fix v and s :: state
  assume "\<not> fatal_result env v (exec_CombinedOutput env (length (execs s)) (''go'' # args_A env v))"
  from body_A_ok [OF this, of w]
  show "\<exists>s'. body_A env w v s = (None, s') \<and> execs s' = execs s @ [''go'' # args_A env v]
            \<and> t_sum s' = t_sum s + trailer_duration env
                 (fst (exec_CombinedOutput env (length (execs s)) (''go'' # args_A env v)))"
    by simp
qed

lemma for_bench_B_run:
  assumes "for_bench (body_B env) bench s = (r, s')"
  shows "execs s' = execs s @ map (\<lambda>v. ''go'' # args_B env v)
                               (take (Suc (completed env args_B (length (execs s)) bench)) bench)
       \<and> t_sum s' = t_sum s + sum_list (durations env args_B (length (execs s))
                                         (take (completed env args_B (length (execs s)) bench) bench))
       \<and> (r = None \<longleftrightarrow> completed env args_B (length (execs s)) bench = length bench)"
proof (rule for_bench_run [OF _ _ assms])
  fix v and s :: state
  assume "fatal_result env v (exec_CombinedOutput env (length (execs s)) (''go'' # args_B env v))"
  then show "\<exists>e. body_B env v s = (Some e, s\<lparr>execs := execs s @ [''go'' # args_B env v]\<rparr>)"
    by (rule body_B_fatal)
next
  fix v and s :: state
  assume "\<not> fatal_result env v (exec_CombinedOutput env (length (execs s)) (''go'' # args_B env v))"
  from body_B_ok [OF this]
  show "\<exists>s'. body_B env v s = (None, s') \<and> execs s' = execs s @ [''go'' # args_B env v]
            \<and> t_sum s' = t_sum s + trailer_duration env
                 (fst (exec_CombinedOutput env (length (execs s)) (''go'' # args_B env v)))"
    by simp
qed

lemma main_A_run:
  assumes "Scanner (ioutil_ReadFile env) (testFiles env) = Inr bench" and "main_A env = (r, s)"
  shows "execs s = map (\<lambda>v. ''go'' # args_A env v) (take (Suc (completed env args_A 0 bench)) bench)
       \<and> t_sum s = sum_list (durations env args_A 0 (take (completed env args_A 0 bench) bench))
       \<and> (r = None \<longleftrightarrow> completed env args_A 0 bench = length bench)"
proof -
  obtain r0 s0 where run: "for_bench (body_A env (max_width bench)) bench init = (r0, s0)"
    by (cases "for_bench (body_A env (max_width bench)) bench init")
  from assms run have "r = r0" "execs s = execs s0" "t_sum s = t_sum s0"
    by (auto simp: main_A_def split: option.splits)
  with for_bench_A_run [OF run] show ?thesis by (simp add: init_def)
qed

lemma main_B_run:
  assumes "Scanner (ioutil_ReadFile env) (testFiles env) = Inr bench" and "main_B env = (r, s)"
  shows "execs s = map (\<lambda>v. ''go'' # args_B env v) (take (Suc (completed env args_B 0 bench)) bench)
       \<and> t_sum s = sum_list (durations env args_B 0 (take (completed env args_B 0 bench) bench))
       \<and> (r = None \<longleftrightarrow> completed env args_B 0 bench = length bench)"
proof -
  obtain r0 s0 where run: "for_bench (body_B env) bench init = (r0, s0)"
    by (cases "for_bench (body_B env) bench init")
  from assms run have "r = r0" "execs s = execs s0" "t_sum s = t_sum s0"
    by (auto simp: main_B_def split: option.splits)
  with for_bench_B_run [OF run] show ?thesis by (simp add: init_def)
qed

text \<open>
  C1 (as amended). In every run of either version, the variable \<open>t\<close> is the sum of the
  durations parsed from the trailer lines of the invocations whose result is not fatal,
  one for each of these identifiers, whatever \<^verbatim>\<open>parse.ParseLine\<close> makes of the result
  lines: the invocations of all the identifiers when the run completes (and then the
  summary prints this sum), those before the failing one otherwise. The sum is the one of
  \<^verbatim>\<open>time.Duration\<close>, an \<^verbatim>\<open>int64\<close> that wraps around; it is the sum of the integers
  whenever that fits in an \<^verbatim>\<open>int64\<close>.
\<close>

theorem total_duration_is_sum:
  assumes "Scanner (ioutil_ReadFile env) (testFiles env) = Inr bench"
  shows "(main_A env = (r, s) \<longrightarrow>
            t_sum s = sum_list (durations env args_A 0 (take (completed env args_A 0 bench) bench))
          \<and> (r = None \<longleftrightarrow> completed env args_A 0 bench = length bench)
          \<and> (r = None \<longrightarrow>
                t_sum s = sum_list (durations env args_A 0 bench)
              \<and> (\<exists>out. stdout s = out @ summary env (sum_list (durations env args_A 0 bench))))
          \<and> (- (2 ^ 63) \<le> sum_list (map sint (durations env args_A 0
                                (take (completed env args_A 0 bench) bench)))
               \<and> sum_list (map sint (durations env args_A 0
                                (take (completed env args_A 0 bench) bench))) < 2 ^ 63 \<longrightarrow>
             sint (t_sum s) = sum_list (map sint (durations env args_A 0
                                (take (completed env args_A 0 bench) bench)))))
       \<and> (main_B env = (r, s) \<longrightarrow>
            t_sum s = sum_list (durations env args_B 0 (take (completed env args_B 0 bench) bench))
          \<and> (r = None \<longleftrightarrow> completed env args_B 0 bench = length bench)
          \<and> (r = None \<longrightarrow>
                t_sum s = sum_list (durations env args_B 0 bench)
              \<and> (\<exists>out. stdout s = out @ summary env (sum_list (durations env args_B 0 bench))))
          \<and> (- (2 ^ 63) \<le> sum_list (map sint (durations env args_B 0
                                (take (completed env args_B 0 bench) bench)))
               \<and> sum_list (map sint (durations env args_B 0
                                (take (completed env args_B 0 bench) bench))) < 2 ^ 63 \<longrightarrow>
             sint (t_sum s) = sum_list (map sint (durations env args_B 0
                                (take (completed env args_B 0 bench) bench)))))
       \<and> length (durations env args_A 0 (take (completed env args_A 0 bench) bench))
           = min (length bench) (completed env args_A 0 bench)
       \<and> length (durations env args_B 0 (take (completed env args_B 0 bench) bench))
           = min (length bench) (completed env args_B 0 bench)"
proof -
  have A: "t_sum s = sum_list (durations env args_A 0 (take (completed env args_A 0 bench) bench))
          \<and> (r = None \<longleftrightarrow> completed env args_A 0 bench = length bench)
          \<and> (r = None \<longrightarrow>
                t_sum s = sum_list (durations env args_A 0 bench)
              \<and> (\<exists>out. stdout s = out @ summary env (sum_list (durations env args_A 0 bench))))"
    if m: "main_A env = (r, s)"
  proof -
    from main_A_run [OF assms m]
    have t: "t_sum s = sum_list (durations env args_A 0 (take (completed env args_A 0 bench) bench))"
      and c: "r = None \<longleftrightarrow> completed env args_A 0 bench = length bench" by simp_all
    have "t_sum s = sum_list (durations env args_A 0 bench)
        \<and> (\<exists>out. stdout s = out @ summary env (sum_list (durations env args_A 0 bench)))"
      if n: "r = None"
    proof -
      from n c t have ts: "t_sum s = sum_list (durations env args_A 0 bench)" by simp
      from assms m n obtain s0 where "s = s0\<lparr>stdout := stdout s0 @ summary env (t_sum s0)\<rparr>"
        by (auto elim: main_A_completed)
      then have "stdout s = stdout s0 @ summary env (t_sum s)" by simp
      with ts show ?thesis by auto
    qed
    with t c show ?thesis by blast
  qed
  have B: "t_sum s = sum_list (durations env args_B 0 (take (completed env args_B 0 bench) bench))
          \<and> (r = None \<longleftrightarrow> completed env args_B 0 bench = length bench)
          \<and> (r = None \<longrightarrow>
                t_sum s = sum_list (durations env args_B 0 bench)
              \<and> (\<exists>out. stdout s = out @ summary env (sum_list (durations env args_B 0 bench))))"
    if m: "main_B env = (r, s)"
  proof -
    from main_B_run [OF assms m]
    have t: "t_sum s = sum_list (durations env args_B 0 (take (completed env args_B 0 bench) bench))"
      and c: "r = None \<longleftrightarrow> completed env args_B 0 bench = length bench" by simp_all
    have "t_sum s = sum_list (durations env args_B 0 bench)
        \<and> (\<exists>out. stdout s = out @ summary env (sum_list (durations env args_B 0 bench)))"
      if n: "r = None"
    proof -
      from n c t have ts: "t_sum s = sum_list (durations env args_B 0 bench)" by simp
      from assms m n obtain s0 where "s = s0\<lparr>stdout := stdout s0 @ summary env (t_sum s0)\<rparr>"
        by (auto elim: main_B_completed)
      then have "stdout s = stdout s0 @ summary env (t_sum s)" by simp
      with ts show ?thesis by auto
    qed
    with t c show ?thesis by blast
  qed
  show ?thesis
  proof (intro conjI impI)
    assume "main_A env = (r, s)"
    note a = A [OF this]
    from a show "t_sum s = sum_list (durations env args_A 0 (take (completed env args_A 0 bench) bench))"
      by simp
    from a show "(r = None) = (completed env args_A 0 bench = length bench)" by simp
    { assume "r = None"
      with a show "t_sum s = sum_list (durations env args_A 0 bench)" by simp
      from a \<open>r = None\<close>
      show "\<exists>out. stdout s = out @ summary env (sum_list (durations env args_A 0 bench))" by simp }
    { assume "- (2 ^ 63) \<le> sum_list (map sint (durations env args_A 0
                                (take (completed env args_A 0 bench) bench)))
               \<and> sum_list (map sint (durations env args_A 0
                                (take (completed env args_A 0 bench) bench))) < 2 ^ 63"
      with a show "sint (t_sum s) = sum_list (map sint (durations env args_A 0
                                (take (completed env args_A 0 bench) bench)))"
        by (simp add: sint_sum_list_exact) }
  next
    assume "main_B env = (r, s)"
    note b = B [OF this]
    from b show "t_sum s = sum_list (durations env args_B 0 (take (completed env args_B 0 bench) bench))"
      by simp
    from b show "(r = None) = (completed env args_B 0 bench = length bench)" by simp
    { assume "r = None"
      with b show "t_sum s = sum_list (durations env args_B 0 bench)" by simp
      from b \<open>r = None\<close>
      show "\<exists>out. stdout s = out @ summary env (sum_list (durations env args_B 0 bench))" by simp }
    { assume "- (2 ^ 63) \<le> sum_list (map sint (durations env args_B 0
                                (take (completed env args_B 0 bench) bench)))
               \<and> sum_list (map sint (durations env args_B 0
                                (take (completed env args_B 0 bench) bench))) < 2 ^ 63"
      with b show "sint (t_sum s) = sum_list (map sint (durations env args_B 0
                                (take (completed env args_B 0 bench) bench)))"
        by (simp add: sint_sum_list_exact) }
  next
    show "length (durations env args_A 0 (take (completed env args_A 0 bench) bench))
           = min (length bench) (completed env args_A 0 bench)"
      by (simp add: length_durations)
    show "length (durations env args_B 0 (take (completed env args_B 0 bench) bench))
           = min (length bench) (completed env args_B 0 bench)"
      by (simp add: length_durations)
  qed
qed

theorem total_duration_is_sum_witness:
  "Scanner (ioutil_ReadFile demo_env) (testFiles demo_env) = Inr demo_bench
   \<and> main_A demo_env = (None, snd (main_A demo_env))
   \<and> parse_ParseLine demo_env bar_line = None
   \<and> completed demo_env args_A 0 demo_bench = 3
   \<and> durations demo_env args_A 0 demo_bench = [2250000000, 1021000000, 2250000000]
   \<and> t_sum (snd (main_A demo_env)) = 5521000000
   \<and> sint (t_sum (snd (main_A demo_env))) = 5521000000"
proof -
  have h: "Scanner (ioutil_ReadFile demo_env) (testFiles demo_env) = Inr demo_bench" by code_simp
  have c: "fst (main_A demo_env) = None" by code_simp
  then have m: "main_A demo_env = (None, snd (main_A demo_env))"
    by (cases "main_A demo_env") simp
  have p: "parse_ParseLine demo_env bar_line = None" by code_simp
  have k: "completed demo_env args_A 0 demo_bench = 3" by code_simp
  have d: "durations demo_env args_A 0 demo_bench = [2250000000, 1021000000, 2250000000]"
    by code_simp
  have l: "take 3 demo_bench = demo_bench" by code_simp
  note th = total_duration_is_sum [OF h, of None "snd (main_A demo_env)"]
  from th m have t: "t_sum (snd (main_A demo_env)) = sum_list (durations demo_env args_A 0 demo_bench)"
    by blast
  from th m have "- (2 ^ 63) \<le> sum_list (map sint (durations demo_env args_A 0
                                (take (completed demo_env args_A 0 demo_bench) demo_bench)))
               \<and> sum_list (map sint (durations demo_env args_A 0
                                (take (completed demo_env args_A 0 demo_bench) demo_bench))) < 2 ^ 63 \<longrightarrow>
             sint (t_sum (snd (main_A demo_env))) = sum_list (map sint (durations demo_env args_A 0
                                (take (completed demo_env args_A 0 demo_bench) demo_bench)))"
    by blast
  then have "sint (t_sum (snd (main_A demo_env))) = 5521000000"
    by (simp add: k l d)
  with h m p k d t show ?thesis by simp
qed

text \<open>
  C1 as stated fails: when each of two invocations reports 2^63 - 1 nanoseconds, the
  run completes and \<open>t\<close> is -2 nanoseconds; the sum of the two durations is 2^64 - 2.
\<close>

theorem total_duration_counterexample:
  "Scanner (ioutil_ReadFile long_env) (testFiles long_env) = Inr [''BenchmarkFoo'', ''BenchmarkBar'']
   \<and> fst (main_B long_env) = None
   \<and> durations long_env args_B 0 [''BenchmarkFoo'', ''BenchmarkBar'']
       = [9223372036854775807, 9223372036854775807]
   \<and> sum_list (map sint (durations long_env args_B 0 [''BenchmarkFoo'', ''BenchmarkBar'']))
       = 18446744073709551614
   \<and> sint (t_sum (snd (main_B long_env))) = - 2
   \<and> fst (main_A long_env) = None
   \<and> sint (t_sum (snd (main_A long_env))) = - 2"
  by code_simp

text \<open>
  C5 (as amended). The argument list of the invocation for an identifier is
  \<^verbatim>\<open>test -run NONE -bench ^<identifier>$\<close>, then the import path in the version with the
  formatted report (nothing in \<^verbatim>\<open>main.go\<close>), then \<^verbatim>\<open>-benchmem\<close> if and only if the flag is
  set. The invocations of a run are those of the identifiers in order, one each, up to
  and including the first identifier whose invocation has a fatal result, and none after
  it; the run completes exactly when no result is fatal, and then they are the
  invocations of all the identifiers.
\<close>

theorem invocation_arguments:
  assumes "Scanner (ioutil_ReadFile env) (testFiles env) = Inr bench"
  shows "args_B env v = [''test'', ''-run'', ''NONE'', ''-bench'', ''^'' @ v @ ''$'']
                          @ (if oBenchmem env then [''-benchmem''] else [])
       \<and> args_A env v = [''test'', ''-run'', ''NONE'', ''-bench'', ''^'' @ v @ ''$'', importPath env]
                          @ (if oBenchmem env then [''-benchmem''] else [])
       \<and> (main_B env = (r, s) \<longrightarrow>
            execs s = map (\<lambda>v. ''go'' # args_B env v) (take (Suc (completed env args_B 0 bench)) bench)
            \<and> (r = None \<longleftrightarrow> completed env args_B 0 bench = length bench)
            \<and> (r = None \<longrightarrow> execs s = map (\<lambda>v. ''go'' # args_B env v) bench))
       \<and> (main_A env = (r, s) \<longrightarrow>
            execs s = map (\<lambda>v. ''go'' # args_A env v) (take (Suc (completed env args_A 0 bench)) bench)
            \<and> (r = None \<longleftrightarrow> completed env args_A 0 bench = length bench)
            \<and> (r = None \<longrightarrow> execs s = map (\<lambda>v. ''go'' # args_A env v) bench))"
proof -
  have B: "execs s = map (\<lambda>v. ''go'' # args_B env v) (take (Suc (completed env args_B 0 bench)) bench)
            \<and> (r = None \<longleftrightarrow> completed env args_B 0 bench = length bench)
            \<and> (r = None \<longrightarrow> execs s = map (\<lambda>v. ''go'' # args_B env v) bench)"
    if m: "main_B env = (r, s)"
    using main_B_run [OF assms m] by auto
  have A: "execs s = map (\<lambda>v. ''go'' # args_A env v) (take (Suc (completed env args_A 0 bench)) bench)
            \<and> (r = None \<longleftrightarrow> completed env args_A 0 bench = length bench)
            \<and> (r = None \<longrightarrow> execs s = map (\<lambda>v. ''go'' # args_A env v) bench)"
    if m: "main_A env = (r, s)"
    using main_A_run [OF assms m] by auto
  from A B show ?thesis by (simp add: args_A_def args_B_def)
qed

theorem invocation_arguments_witness:
  "Scanner (ioutil_ReadFile demo_env) (testFiles demo_env) = Inr demo_bench
   \<and> fst (main_B demo_env) = None
   \<and> execs (snd (main_B demo_env))
       = [[''go'', ''test'', ''-run'', ''NONE'', ''-bench'', ''^BenchmarkFoo$''],
          [''go'', ''test'', ''-run'', ''NONE'', ''-bench'', ''^BenchmarkBar$''],
          [''go'', ''test'', ''-run'', ''NONE'', ''-bench'', ''^BenchmarkFoo$'']]
   \<and> Scanner (ioutil_ReadFile second_fails_env) (testFiles second_fails_env) = Inr demo_bench
   \<and> completed second_fails_env args_A 0 demo_bench = 1
   \<and> main_A second_fails_env = (fst (main_A second_fails_env), snd (main_A second_fails_env))
   \<and> execs (snd (main_A second_fails_env)) = [foo_cmd, bar_cmd]"
proof -
  have h: "Scanner (ioutil_ReadFile demo_env) (testFiles demo_env) = Inr demo_bench" by code_simp
  have c: "fst (main_B demo_env) = None" by code_simp
  then have m: "main_B demo_env = (None, snd (main_B demo_env))"
    by (cases "main_B demo_env") simp
  from invocation_arguments [OF h, of _ None "snd (main_B demo_env)"] m
  have "execs (snd (main_B demo_env)) = map (\<lambda>v. ''go'' # args_B demo_env v) demo_bench"
    by auto
  moreover have "map (\<lambda>v. ''go'' # args_B demo_env v) demo_bench
       = [[''go'', ''test'', ''-run'', ''NONE'', ''-bench'', ''^BenchmarkFoo$''],
          [''go'', ''test'', ''-run'', ''NONE'', ''-bench'', ''^BenchmarkBar$''],
          [''go'', ''test'', ''-run'', ''NONE'', ''-bench'', ''^BenchmarkFoo$'']]"
    by code_simp
  ultimately have 1: "execs (snd (main_B demo_env))
       = [[''go'', ''test'', ''-run'', ''NONE'', ''-bench'', ''^BenchmarkFoo$''],
          [''go'', ''test'', ''-run'', ''NONE'', ''-bench'', ''^BenchmarkBar$''],
          [''go'', ''test'', ''-run'', ''NONE'', ''-bench'', ''^BenchmarkFoo$'']]" by simp
  have h2: "Scanner (ioutil_ReadFile second_fails_env) (testFiles second_fails_env) = Inr demo_bench"
    by code_simp
  have k: "completed second_fails_env args_A 0 demo_bench = 1" by code_simp
  have m2: "main_A second_fails_env = (fst (main_A second_fails_env), snd (main_A second_fails_env))"
    by simp
  from invocation_arguments [OF h2, of _ "fst (main_A second_fails_env)" "snd (main_A second_fails_env)"] m2
  have "execs (snd (main_A second_fails_env))
      = map (\<lambda>v. ''go'' # args_A second_fails_env v)
          (take (Suc (completed second_fails_env args_A 0 demo_bench)) demo_bench)"
    by blast
  moreover have "map (\<lambda>v. ''go'' # args_A second_fails_env v) (take (Suc 1) demo_bench)
      = [foo_cmd, bar_cmd]" by code_simp
  ultimately have 2: "execs (snd (main_A second_fails_env)) = [foo_cmd, bar_cmd]"
    by (simp add: k)
  from h c 1 h2 k m2 2 show ?thesis by blast
qed

text \<open>
  C5 as stated fails in the version with the formatted report: without the flag the
  argument list has a sixth element, the import path. And when the tool exits with an
  error at the first of three identifiers, nothing is invoked for the other two.
\<close>

theorem invocation_arguments_counterexample:
  "\<not> oBenchmem demo_env
   \<and> args_A demo_env ''BenchmarkFoo''
       = [''test'', ''-run'', ''NONE'', ''-bench'', ''^BenchmarkFoo$'', ''x'']
   \<and> args_A demo_env ''BenchmarkFoo'' \<noteq> [''test'', ''-run'', ''NONE'', ''-bench'', ''^BenchmarkFoo$'']
   \<and> Scanner (ioutil_ReadFile failing_env) (testFiles failing_env) = Inr demo_bench
   \<and> main_A failing_env
       = (Some ExecError,
          \<lparr>stdout = [],
           execs = [[''go'', ''test'', ''-run'', ''NONE'', ''-bench'', ''^BenchmarkFoo$'', ''x'']],
           t_sum = 0\<rparr>)"
  by code_simp

text \<open>
  C2. Take a run of the version with the formatted report that has reached the identifier
  \<open>v\<close> in the state \<open>s\<close>, and the result \<open>r\<close> of the invocation for \<open>v\<close>. If \<open>r\<close> is fatal
  (a non-zero exit, fewer than three lines, a first line that does not start with \<open>v\<close>, a
  second line other than \<^verbatim>\<open>PASS\<close>, a third line without the trailer prefix, a duration that
  does not parse), the program ends with a failure and its output is the output of \<open>s\<close>:
  nothing for \<open>v\<close> or a later identifier, and no summary. If \<open>r\<close> is not fatal the run goes
  on with the next identifier, and a first line that \<^verbatim>\<open>parse.ParseLine\<close> rejects has been
  printed as it is.
\<close>

theorem fatal_aborts_parse_failure_recovers:
  assumes scan: "Scanner (ioutil_ReadFile env) (testFiles env) = Inr (pre @ v # post)"
    and pre: "for_bench (body_A env (max_width (pre @ v # post))) pre init = (None, s)"
    and r: "r = exec_CombinedOutput env (length (execs s)) (''go'' # args_A env v)"
  shows "(fatal_result env v r \<longrightarrow>
            (\<exists>e. main_A env = (Some e, s\<lparr>execs := execs s @ [''go'' # args_A env v]\<rparr>)))
       \<and> (\<not> fatal_result env v r \<longrightarrow>
            (\<exists>s'. for_bench (body_A env (max_width (pre @ v # post))) (pre @ [v]) init = (None, s')
                \<and> main_A env =
                    (case for_bench (body_A env (max_width (pre @ v # post))) post s' of
                       (Some e, s'') \<Rightarrow> (Some e, s'')
                     | (None, s'') \<Rightarrow> (None, s''\<lparr>stdout := stdout s'' @ summary env (t_sum s'')\<rparr>))
                \<and> (parse_ParseLine env (output_line (fst r) 0) = None \<longrightarrow>
                     stdout s' = stdout s @ output_line (fst r) 0 @ [NL])))"
proof (intro conjI impI)
  assume f: "fatal_result env v r"
  with r obtain e where
    "body_A env (max_width (pre @ v # post)) v s = (Some e, s\<lparr>execs := execs s @ [''go'' # args_A env v]\<rparr>)"
    using body_A_fatal by blast
  with scan pre have "main_A env = (Some e, s\<lparr>execs := execs s @ [''go'' # args_A env v]\<rparr>)"
    by (simp add: main_A_def for_bench_append)
  then show "\<exists>e. main_A env = (Some e, s\<lparr>execs := execs s @ [''go'' # args_A env v]\<rparr>)" ..
next
  assume nf: "\<not> fatal_result env v r"
  define w where "w = max_width (pre @ v # post)"
  obtain s' where b: "body_A env w v s = (None, s')"
    and out: "stdout s' = (let a0 = output_line (fst r) 0
                 in case parse_ParseLine env a0 of
                      None \<Rightarrow> stdout s @ a0 @ [NL]
                    | Some b \<Rightarrow> snd (print_fields env w b (stdout s)))"
    using body_A_ok [of env v s w] nf r by simp
  from pre b have 1: "for_bench (body_A env w) (pre @ [v]) init = (None, s')"
    by (simp add: for_bench_append w_def)
  from pre b scan have 2: "main_A env =
                    (case for_bench (body_A env w) post s' of
                       (Some e, s'') \<Rightarrow> (Some e, s'')
                     | (None, s'') \<Rightarrow> (None, s''\<lparr>stdout := stdout s'' @ summary env (t_sum s'')\<rparr>))"
    by (simp add: main_A_def for_bench_append w_def)
  from out have 3: "parse_ParseLine env (output_line (fst r) 0) = None \<longrightarrow>
                     stdout s' = stdout s @ output_line (fst r) 0 @ [NL]"
    by simp
  from 1 2 3 have "for_bench (body_A env w) (pre @ [v]) init = (None, s')
                \<and> main_A env =
                    (case for_bench (body_A env w) post s' of
                       (Some e, s'') \<Rightarrow> (Some e, s'')
                     | (None, s'') \<Rightarrow> (None, s''\<lparr>stdout := stdout s'' @ summary env (t_sum s'')\<rparr>))
                \<and> (parse_ParseLine env (output_line (fst r) 0) = None \<longrightarrow>
                     stdout s' = stdout s @ output_line (fst r) 0 @ [NL])"
    by (intro conjI)
  then show "\<exists>s'. for_bench (body_A env (max_width (pre @ v # post))) (pre @ [v]) init = (None, s')
                \<and> main_A env =
                    (case for_bench (body_A env (max_width (pre @ v # post))) post s' of
                       (Some e, s'') \<Rightarrow> (Some e, s'')
                     | (None, s'') \<Rightarrow> (None, s''\<lparr>stdout := stdout s'' @ summary env (t_sum s'')\<rparr>))
                \<and> (parse_ParseLine env (output_line (fst r) 0) = None \<longrightarrow>
                     stdout s' = stdout s @ output_line (fst r) 0 @ [NL])"
    unfolding w_def by (rule exI)
qed

theorem fatal_aborts_parse_failure_recovers_witness:
  "Scanner (ioutil_ReadFile second_fails_env) (testFiles second_fails_env)
     = Inr ([''BenchmarkFoo''] @ ''BenchmarkBar'' # [''BenchmarkFoo''])
   \<and> for_bench (body_A second_fails_env (max_width ([''BenchmarkFoo''] @ ''BenchmarkBar'' # [''BenchmarkFoo''])))
        [''BenchmarkFoo''] init = (None, after_foo)
   \<and> fatal_result second_fails_env ''BenchmarkBar''
        (exec_CombinedOutput second_fails_env (length (execs after_foo))
           (''go'' # args_A second_fails_env ''BenchmarkBar''))
   \<and> main_A second_fails_env
       = (Some ExecError, \<lparr>stdout = foo_report, execs = [foo_cmd, bar_cmd], t_sum = 2250000000\<rparr>)"
proof -
  have h1: "Scanner (ioutil_ReadFile second_fails_env) (testFiles second_fails_env)
     = Inr ([''BenchmarkFoo''] @ ''BenchmarkBar'' # [''BenchmarkFoo''])" by code_simp
  have h2: "for_bench (body_A second_fails_env (max_width ([''BenchmarkFoo''] @ ''BenchmarkBar'' # [''BenchmarkFoo''])))
        [''BenchmarkFoo''] init = (None, after_foo)" by code_simp
  have f: "fatal_result second_fails_env ''BenchmarkBar''
        (exec_CombinedOutput second_fails_env (length (execs after_foo))
           (''go'' # args_A second_fails_env ''BenchmarkBar''))" by code_simp
  have v: "after_foo\<lparr>execs := execs after_foo @ [''go'' # args_A second_fails_env ''BenchmarkBar'']\<rparr>
        = \<lparr>stdout = foo_report, execs = [foo_cmd, bar_cmd], t_sum = 2250000000\<rparr>" by code_simp
  have m: "fst (main_A second_fails_env) = Some ExecError" by code_simp
  from fatal_aborts_parse_failure_recovers [OF h1 h2 refl] f
  obtain e where "main_A second_fails_env
      = (Some e, after_foo\<lparr>execs := execs after_foo @ [''go'' # args_A second_fails_env ''BenchmarkBar'']\<rparr>)"
    by blast
  with m v have "main_A second_fails_env
       = (Some ExecError, \<lparr>stdout = foo_report, execs = [foo_cmd, bar_cmd], t_sum = 2250000000\<rparr>)"
    by simp
  with h1 h2 f show ?thesis by blast
qed

text \<open>
  C10. When the scanner finds no identifier, either version of the program invokes
  nothing and ends without a failure, having printed \<^verbatim>\<open>PASS\<close> and the trailer with the
  import path and \<^verbatim>\<open>0s\<close>.
\<close>

theorem no_identifiers_summary_only:
  assumes "Scanner (ioutil_ReadFile env) (testFiles env) = Inr []"
  shows "main_A env =
           (None, \<lparr>stdout = ''PASS'' @ [NL] @ ''ok  '' @ [TAB] @ importPath env @ [TAB] @ ''0s'' @ [NL],
                   execs = [], t_sum = 0\<rparr>)
       \<and> main_B env =
           (None, \<lparr>stdout = ''PASS'' @ [NL] @ ''ok  '' @ [TAB] @ importPath env @ [TAB] @ ''0s'' @ [NL],
                   execs = [], t_sum = 0\<rparr>)"
  using assms by (simp add: main_A_def main_B_def init_def summary_def Duration_String_def)

theorem no_identifiers_summary_only_witness:
  "Scanner (ioutil_ReadFile no_files_env) (testFiles no_files_env) = Inr []
   \<and> main_B no_files_env =
       (None, \<lparr>stdout = ''PASS'' @ [NL] @ ''ok  '' @ [TAB] @ ''x'' @ [TAB] @ ''0s'' @ [NL],
               execs = [], t_sum = 0\<rparr>)"
proof -
  have h: "Scanner (ioutil_ReadFile no_files_env) (testFiles no_files_env) = Inr []" by code_simp
  have i: "importPath no_files_env = ''x''" by code_simp
  from no_identifiers_summary_only [OF h] h show ?thesis by (simp only: i)
qed

lemma print_fields_eq:
  "print_fields env width b out =
     (None,
      out @ Sprintf_star_s (utf8_RuneCount env) (- (int width + 4)) (Name b) @ Sprintf_15d (N b)
        @ (if Measured b AND parse_NsPerOp \<noteq> 0
           then Sprintf_15s (utf8_RuneCount env)
                  (let s = fmt_Sprintf_2f env (NsPerOp b)
                   in if 2 < Index s CHR ''.'' then take (length s - 3) s else s) @ '' ns/op''
           else [])
        @ (if Measured b AND parse_MBPerS \<noteq> 0
           then fmt_Sprintf_15_2f env (MBPerS b) @ '' MB/s'' else [])
        @ (if Measured b AND parse_AllocedBytesPerOp \<noteq> 0
           then Sprintf_15v (AllocedBytesPerOp b) @ '' B/op'' else [])
        @ (if Measured b AND parse_AllocsPerOp \<noteq> 0
           then Sprintf_15v (AllocsPerOp b) @ '' allocs/op'' else [])
        @ [NL])"
  by (simp add: print_fields_def print_NsPerOp_def ns_string_total Let_def)

text \<open>
  C7. For a measurement with none of the four flags in \<open>Measured\<close>, the line printed is
  the name, padded, and the iteration count, and the end of the line: no unit. So is
  the output of the step of the run whose result line parses to such a measurement.
\<close>

theorem no_flags_no_units:
  assumes "Measured b AND parse_NsPerOp = 0" and "Measured b AND parse_MBPerS = 0"
    and "Measured b AND parse_AllocedBytesPerOp = 0" and "Measured b AND parse_AllocsPerOp = 0"
  shows "print_fields env width b out =
           (None, out @ Sprintf_star_s (utf8_RuneCount env) (- (int width + 4)) (Name b)
                      @ Sprintf_15d (N b) @ [NL])
       \<and> (\<not> fatal_result env v (exec_CombinedOutput env (length (execs s)) (''go'' # args_A env v))
            \<and> parse_ParseLine env
                (output_line (fst (exec_CombinedOutput env (length (execs s)) (''go'' # args_A env v))) 0)
                = Some b \<longrightarrow>
          fst (body_A env width v s) = None
          \<and> stdout (snd (body_A env width v s))
              = stdout s @ Sprintf_star_s (utf8_RuneCount env) (- (int width + 4)) (Name b)
                  @ Sprintf_15d (N b) @ [NL])"
proof -
  from assms have p: "print_fields env width b out' =
           (None, out' @ Sprintf_star_s (utf8_RuneCount env) (- (int width + 4)) (Name b)
                      @ Sprintf_15d (N b) @ [NL])" for out'
    by (simp add: print_fields_eq)
  show ?thesis
  proof (intro conjI impI)
    show "print_fields env width b out =
           (None, out @ Sprintf_star_s (utf8_RuneCount env) (- (int width + 4)) (Name b)
                      @ Sprintf_15d (N b) @ [NL])" by (rule p)
  next
    assume a: "\<not> fatal_result env v (exec_CombinedOutput env (length (execs s)) (''go'' # args_A env v))
            \<and> parse_ParseLine env
                (output_line (fst (exec_CombinedOutput env (length (execs s)) (''go'' # args_A env v))) 0)
                = Some b"
    then show "fst (body_A env width v s) = None"
      by (simp add: body_A_ok)
  next
    assume a: "\<not> fatal_result env v (exec_CombinedOutput env (length (execs s)) (''go'' # args_A env v))
            \<and> parse_ParseLine env
                (output_line (fst (exec_CombinedOutput env (length (execs s)) (''go'' # args_A env v))) 0)
                = Some b"
    then show "stdout (snd (body_A env width v s))
              = stdout s @ Sprintf_star_s (utf8_RuneCount env) (- (int width + 4)) (Name b)
                  @ Sprintf_15d (N b) @ [NL]"
      by (simp add: body_A_ok p)
  qed
qed

theorem no_flags_no_units_witness:
  "Measured untagged_benchmark AND parse_NsPerOp = 0
   \<and> Measured untagged_benchmark AND parse_MBPerS = 0
   \<and> Measured untagged_benchmark AND parse_AllocedBytesPerOp = 0
   \<and> Measured untagged_benchmark AND parse_AllocsPerOp = 0
   \<and> print_fields demo_env 12 untagged_benchmark []
       = (None, ''BenchmarkFoo-4             2000'' @ [NL])"
proof -
  have m: "Measured untagged_benchmark = 0" by code_simp
  have h: "Measured untagged_benchmark AND parse_NsPerOp = 0"
    "Measured untagged_benchmark AND parse_MBPerS = 0"
    "Measured untagged_benchmark AND parse_AllocedBytesPerOp = 0"
    "Measured untagged_benchmark AND parse_AllocsPerOp = 0"
    by (simp_all add: m)
  have v: "[] @ Sprintf_star_s (utf8_RuneCount demo_env) (- (int 12 + 4)) (Name untagged_benchmark)
             @ Sprintf_15d (N untagged_benchmark) @ [NL]
           = ''BenchmarkFoo-4             2000'' @ [NL]" by code_simp
  from no_flags_no_units [OF h, of demo_env 12 "[]"] h show ?thesis by (simp only: v)
qed

text \<open>
  C4 (as amended). The string printed before \<^verbatim>\<open>ns/op\<close> is the rendering \<open>s\<close> of the value by
  \<^verbatim>\<open>%.2f\<close>, without its last three characters if the first point of \<open>s\<close> is at an index
  greater than 2, and \<open>s\<close> itself otherwise; the slice expression never fails. For a
  rendering with the characters \<open>ip\<close> before the point and two decimals, what is printed
  is \<open>ip\<close> when \<open>ip\<close> has three characters or more (three digits, or a minus sign and two
  digits) and the whole rendering otherwise.
\<close>

theorem ns_per_op_rendering:
  "ns_string s = Inr (if 2 < Index s CHR ''.'' then take (length s - 3) s else s)
   \<and> print_NsPerOp env x out
       = Inr (out @ Sprintf_15s (utf8_RuneCount env)
                      (if 2 < Index (fmt_Sprintf_2f env x) CHR ''.''
                       then take (length (fmt_Sprintf_2f env x) - 3) (fmt_Sprintf_2f env x)
                       else fmt_Sprintf_2f env x) @ '' ns/op'')
   \<and> (CHR ''.'' \<notin> set ip \<longrightarrow>
        ns_string (ip @ ''.'' @ [a, b]) = Inr (if 3 \<le> length ip then ip else ip @ ''.'' @ [a, b]))"
proof -
  have "Index (xs @ c # ys) c = int (length xs)" if "c \<notin> set xs" for xs ys and c :: char
    using that by (induction xs) (auto simp: Let_def)
  then have i: "Index (ip @ [CHR ''.'', a, b]) CHR ''.'' = int (length ip)" if "CHR ''.'' \<notin> set ip"
    using that by simp
  have "ns_string (ip @ ''.'' @ [a, b]) = Inr (if 3 \<le> length ip then ip else ip @ ''.'' @ [a, b])"
    if "CHR ''.'' \<notin> set ip"
    using i [OF that] by (simp add: ns_string_total)
  then show ?thesis
    by (simp add: ns_string_total print_NsPerOp_def)
qed

theorem ns_per_op_rendering_witness:
  "CHR ''.'' \<notin> set ''1068291''
   \<and> ns_string (''1068291'' @ ''.'' @ [CHR ''0'', CHR ''0'']) = Inr ''1068291''
   \<and> CHR ''.'' \<notin> set ''99''
   \<and> ns_string (''99'' @ ''.'' @ [CHR ''5'', CHR ''0'']) = Inr ''99.50''"
proof -
  have h1: "CHR ''.'' \<notin> set ''1068291''" by simp
  have h2: "CHR ''.'' \<notin> set ''99''" by simp
  from ns_per_op_rendering [of "[]" demo_env 0 "[]" "''1068291''" "CHR ''0''" "CHR ''0''"] h1
  have 1: "ns_string (''1068291'' @ ''.'' @ [CHR ''0'', CHR ''0'']) = Inr ''1068291''"
    by simp
  from ns_per_op_rendering [of "[]" demo_env 0 "[]" "''99''" "CHR ''5''" "CHR ''0''"] h2
  have 2: "ns_string (''99'' @ ''.'' @ [CHR ''5'', CHR ''0'']) = Inr ''99.50''"
    by simp
  from h1 h2 1 2 show ?thesis by blast
qed

text \<open>
  C4 as stated fails for a negative value: the rendering of -12.34 has an integer part
  of two digits, and its point at index 3; the program prints \<^verbatim>\<open>-12\<close>.
\<close>

theorem ns_per_op_rendering_counterexample:
  "demo_Sprintf_2f (- 1234) = ''-12.34''
   \<and> integer_digits ''-12.34'' = 2
   \<and> Index ''-12.34'' CHR ''.'' = 3
   \<and> ns_string ''-12.34'' = Inr ''-12''
   \<and> print_NsPerOp demo_env (- 1234) [] = Inr (''            -12 ns/op'')"
  by code_simp

end
